theory Spec2Isabelle
  imports Main
begin

section \<open>Data model\<close>

text \<open>
  \<^verbatim>\<open>type RequestStatus struct { InProcess bool }\<close> (idempotency.go). A stored
  status with \<open>InProcess = True\<close> is the in-process state, one with
  \<open>InProcess = False\<close> the completed state; a key with no status is absent.
\<close>

record RequestStatus =
  InProcess :: bool

text \<open>
  Go's \<^verbatim>\<open>error\<close> values. The source builds every error of its own with
  \<^verbatim>\<open>fmt.Errorf\<close>; \<open>Errorf f q w\<close> keeps the format string \<open>f\<close> as the source
  writes it, the operand of its \<^verbatim>\<open>%q\<close> verb (if any) and the operand of its
  \<^verbatim>\<open>%w\<close> verb (if any), the wrapped error. The errors of the Redis client are
  the sentinel \<^verbatim>\<open>redis.Nil\<close> (key not found) and any other failure (network,
  cancelled context, error reply), which carries its message.
\<close>

datatype error =
    redis_Nil
  | redis_failure string
  | Errorf string "string option" "error option"

text \<open>\<^verbatim>\<open>errors.Unwrap\<close> and \<^verbatim>\<open>errors.Is\<close>: the latter follows the chain of wrapped errors.\<close>

fun Unwrap :: "error \<Rightarrow> error option" where
  "Unwrap (Errorf f q w) = w"
| "Unwrap redis_Nil = None"
| "Unwrap (redis_failure m) = None"

fun errors_Is :: "error \<Rightarrow> error \<Rightarrow> bool" where
  "errors_Is redis_Nil target = (target = redis_Nil)"
| "errors_Is (redis_failure m) target = (target = redis_failure m)"
| "errors_Is (Errorf f q None) target = (target = Errorf f q None)"
| "errors_Is (Errorf f q (Some e)) target = (target = Errorf f q (Some e) \<or> errors_Is e target)"

text \<open>The status codes of \<^verbatim>\<open>net/http\<close> that \<^verbatim>\<open>Verify\<close> uses.\<close>

definition StatusBadRequest :: nat where
  "StatusBadRequest = 400"

definition StatusConflict :: nat where
  "StatusConflict = 409"

definition StatusInternalServerError :: nat where
  "StatusInternalServerError = 500"

text \<open>
  A request, as far as \<^verbatim>\<open>Verify\<close> reads it: its header, a map from header names to
  lists of values. \<^verbatim>\<open>Header.Get\<close> returns the first value of a name, and the empty
  string when the name has no value.
\<close>

record Request =
  Header :: "string \<rightharpoonup> string list"

definition Header_Get :: "(string \<rightharpoonup> string list) \<Rightarrow> string \<Rightarrow> string" where
  "Header_Get h name = (case h name of None \<Rightarrow> [] | Some [] \<Rightarrow> [] | Some (v # vs) \<Rightarrow> v)"

section \<open>The Storage interface and the memory storage\<close>

text \<open>
  \<^verbatim>\<open>type Storage interface { Add; Get; Complete }\<close> (storage.go) over a store state
  \<open>'s\<close>. \<open>Add\<close> and \<open>Complete\<close> return their error (\<open>None\<close> is \<^verbatim>\<open>nil\<close>) and the
  state they leave; \<open>Get\<close> returns the status pointer (\<open>None\<close> is \<^verbatim>\<open>nil\<close>) and its
  error. Each method runs under the store's lock (memory) or is one command of the
  Redis server, so each is one atomic step on the state. The context argument of
  the methods carries the caller's cancellation; only the Redis client reads it, and
  a cancelled context is one of the ways its commands fail.
\<close>

record 's Storage =
  Add :: "'s \<Rightarrow> string \<Rightarrow> error option \<times> 's"
  Get :: "'s \<Rightarrow> string \<Rightarrow> RequestStatus option \<times> error option"
  Complete :: "'s \<Rightarrow> string \<Rightarrow> error option \<times> 's"

type_synonym memoryStorage = "string \<rightharpoonup> RequestStatus"

definition NewMemoryStorage :: memoryStorage where
  "NewMemoryStorage = Map.empty"

definition memoryStorage_Add :: "memoryStorage \<Rightarrow> string \<Rightarrow> error option \<times> memoryStorage" where
  "memoryStorage_Add m key = (None, m(key \<mapsto> \<lparr>InProcess = True\<rparr>))"

definition memoryStorage_Get :: "memoryStorage \<Rightarrow> string \<Rightarrow> RequestStatus option \<times> error option" where
  "memoryStorage_Get m key = (m key, None)"

definition memoryStorage_Complete :: "memoryStorage \<Rightarrow> string \<Rightarrow> error option \<times> memoryStorage" where
  "memoryStorage_Complete m key = (None, m(key \<mapsto> \<lparr>InProcess = False\<rparr>))"

definition memory :: "memoryStorage Storage" where
  "memory = \<lparr>Add = memoryStorage_Add, Get = memoryStorage_Get, Complete = memoryStorage_Complete\<rparr>"

text \<open>
  \<^verbatim>\<open>incompleteStorage\<close> (idempotency_test.go) embeds the memory storage and replaces
  \<^verbatim>\<open>Complete\<close> by a method that returns \<^verbatim>\<open>nil\<close> and does nothing.
\<close>

definition incompleteStorage_Complete :: "memoryStorage \<Rightarrow> string \<Rightarrow> error option \<times> memoryStorage" where
  "incompleteStorage_Complete m key = (None, m)"

definition incomplete :: "memoryStorage Storage" where
  "incomplete = \<lparr>Add = memoryStorage_Add, Get = memoryStorage_Get, Complete = incompleteStorage_Complete\<rparr>"

section \<open>The coordinator\<close>

text \<open>
  \<^verbatim>\<open>Verify\<close> (idempotency.go) calls its collaborators in order: the storage, the
  wrapped handler \<^verbatim>\<open>next\<close>, the restorer and the error responder. The model returns
  the list of these calls, in order, with the state the storage is left in. The
  wrapped handler, the restorer and the error responder (the fields of \<^verbatim>\<open>state\<close>
  that \<^verbatim>\<open>New\<close> and its options set) are any functions of the caller's; they do not
  touch the storage, and the model records that they are called and with what.

  The call \<^verbatim>\<open>next.ServeHTTP(w, r)\<close> either returns or panics. \<^verbatim>\<open>Verify\<close> has
  neither \<^verbatim>\<open>defer\<close> nor \<^verbatim>\<open>recover\<close>, so a panic of the wrapped handler leaves
  \<^verbatim>\<open>Verify\<close> at once and \<^verbatim>\<open>Complete\<close> is not called. How the handler ends for a
  request is the argument \<open>next\<close> of the model.
\<close>

datatype handler_end = Returns | Panics

datatype call =
    Storage_Get string
  | Storage_Add string
  | Storage_Complete string
  | next_ServeHTTP Request
  | restorer string
  | errResponder error nat

definition Verify :: "'s Storage \<Rightarrow> handler_end \<Rightarrow> Request \<Rightarrow> 's \<Rightarrow> call list \<times> 's" where
  "Verify s next r st =
    (let idempotencyKey = Header_Get (Header r) ''Idempotency-Key'' in
     if idempotencyKey = [] then
       ([errResponder (Errorf ''no Idempotency-Key set'' None None) StatusBadRequest], st)
     else
       (case Get s st idempotencyKey of
          (status, Some err) \<Rightarrow>
            ([Storage_Get idempotencyKey,
              errResponder (Errorf ''could not process request to get Idempotency-Key: %w'' None (Some err))
                StatusInternalServerError], st)
        | (None, None) \<Rightarrow>
            (case Add s st idempotencyKey of
               (Some err, st1) \<Rightarrow>
                 ([Storage_Get idempotencyKey, Storage_Add idempotencyKey,
                   errResponder (Errorf ''could not process request to save Idempotency-Key: %w'' None (Some err))
                     StatusInternalServerError], st1)
             | (None, st1) \<Rightarrow>
                 (case next of
                    Panics \<Rightarrow>
                      ([Storage_Get idempotencyKey, Storage_Add idempotencyKey, next_ServeHTTP r], st1)
                  | Returns \<Rightarrow>
                      (case Complete s st1 idempotencyKey of
                         (Some err, st2) \<Rightarrow>
                           ([Storage_Get idempotencyKey, Storage_Add idempotencyKey, next_ServeHTTP r,
                             Storage_Complete idempotencyKey,
                             errResponder (Errorf ''could not complete request: %w'' None (Some err))
                               StatusInternalServerError], st2)
                       | (None, st2) \<Rightarrow>
                           ([Storage_Get idempotencyKey, Storage_Add idempotencyKey, next_ServeHTTP r,
                             Storage_Complete idempotencyKey], st2))))
        | (Some status, None) \<Rightarrow>
            if InProcess status then
              ([Storage_Get idempotencyKey,
                errResponder (Errorf ''request already in progress'' None None) StatusConflict], st)
            else
              ([Storage_Get idempotencyKey, restorer idempotencyKey], st)))"

text \<open>
  Requests served one after the other, each to its end before the next starts: the
  calls of each request, and the state the storage is left in. Each request comes
  with the way the wrapped handler ends if it is run for it.
\<close>

fun serve :: "'s Storage \<Rightarrow> (handler_end \<times> Request) list \<Rightarrow> 's \<Rightarrow> call list list \<times> 's" where
  "serve s [] st = ([], st)"
| "serve s ((next, r) # rs) st =
     (case Verify s next r st of (cs, st1) \<Rightarrow>
        (case serve s rs st1 of (css, st2) \<Rightarrow> (cs # css, st2)))"

subsection \<open>Concurrent requests\<close>

text \<open>
  Requests run concurrently, each on its own goroutine. What they share is the
  storage, and each storage method is atomic, so an execution of several requests is an
  interleaving of the steps below: \<^verbatim>\<open>Verify\<close>'s body cut before each call to the
  storage and before the call to the wrapped handler. A step runs from one such
  point to the next, or to the return, or to the panic of the wrapped handler.
\<close>

datatype pc = at_Get | at_Add | at_next | at_Complete | returned | panicked

fun step :: "'s Storage \<Rightarrow> handler_end \<Rightarrow> Request \<Rightarrow> pc \<Rightarrow> 's \<Rightarrow> pc \<times> call list \<times> 's" where
  "step s next r at_Get st =
    (let idempotencyKey = Header_Get (Header r) ''Idempotency-Key'' in
     if idempotencyKey = [] then
       (returned, [errResponder (Errorf ''no Idempotency-Key set'' None None) StatusBadRequest], st)
     else
       (case Get s st idempotencyKey of
          (status, Some err) \<Rightarrow>
            (returned,
             [Storage_Get idempotencyKey,
              errResponder (Errorf ''could not process request to get Idempotency-Key: %w'' None (Some err))
                StatusInternalServerError], st)
        | (None, None) \<Rightarrow> (at_Add, [Storage_Get idempotencyKey], st)
        | (Some status, None) \<Rightarrow>
            if InProcess status then
              (returned,
               [Storage_Get idempotencyKey,
                errResponder (Errorf ''request already in progress'' None None) StatusConflict], st)
            else
              (returned, [Storage_Get idempotencyKey, restorer idempotencyKey], st)))"
| "step s next r at_Add st =
    (let idempotencyKey = Header_Get (Header r) ''Idempotency-Key'' in
     case Add s st idempotencyKey of
       (Some err, st1) \<Rightarrow>
         (returned,
          [Storage_Add idempotencyKey,
           errResponder (Errorf ''could not process request to save Idempotency-Key: %w'' None (Some err))
             StatusInternalServerError], st1)
     | (None, st1) \<Rightarrow> (at_next, [Storage_Add idempotencyKey], st1))"
| "step s next r at_next st =
    (case next of
       Panics \<Rightarrow> (panicked, [next_ServeHTTP r], st)
     | Returns \<Rightarrow> (at_Complete, [next_ServeHTTP r], st))"
| "step s next r at_Complete st =
    (let idempotencyKey = Header_Get (Header r) ''Idempotency-Key'' in
     case Complete s st idempotencyKey of
       (Some err, st2) \<Rightarrow>
         (returned,
          [Storage_Complete idempotencyKey,
           errResponder (Errorf ''could not complete request: %w'' None (Some err))
             StatusInternalServerError], st2)
     | (None, st2) \<Rightarrow> (returned, [Storage_Complete idempotencyKey], st2))"
| "step s next r returned st = (returned, [], st)"
| "step s next r panicked st = (panicked, [], st)"

text \<open>One request run alone from its start: at most four steps reach its end.\<close>

definition run_alone :: "'s Storage \<Rightarrow> handler_end \<Rightarrow> Request \<Rightarrow> 's \<Rightarrow> call list \<times> 's" where
  "run_alone s next r st =
    (case step s next r at_Get st of (p1, cs1, st1) \<Rightarrow>
     case step s next r p1 st1 of (p2, cs2, st2) \<Rightarrow>
     case step s next r p2 st2 of (p3, cs3, st3) \<Rightarrow>
     case step s next r p3 st3 of (p4, cs4, st4) \<Rightarrow> (cs1 @ cs2 @ cs3 @ cs4, st4))"

text \<open>
  A configuration: the requests with the way their handler ends and their program
  points, the calls made so far (each with the index of the request that made it),
  and the storage. A schedule is the list of the indices of the requests that step,
  in order; a request arrives when it takes its first step.
\<close>

type_synonym 's config = "((handler_end \<times> Request) \<times> pc) list \<times> (nat \<times> call) list \<times> 's"

fun sched_step :: "'s Storage \<Rightarrow> nat \<Rightarrow> 's config \<Rightarrow> 's config" where
  "sched_step s i (ts, tr, st) =
    (if i < length ts then
       (case ts ! i of ((next, r), p) \<Rightarrow>
          (case step s next r p st of (p', cs, st') \<Rightarrow>
             (ts[i := ((next, r), p')], tr @ map (Pair i) cs, st')))
     else (ts, tr, st))"

fun exec :: "'s Storage \<Rightarrow> nat list \<Rightarrow> 's config \<Rightarrow> 's config" where
  "exec s [] c = c"
| "exec s (i # sched) c = exec s sched (sched_step s i c)"

definition start :: "(handler_end \<times> Request) list \<Rightarrow> 's \<Rightarrow> 's config" where
  "start rs st = (map (\<lambda>r. (r, at_Get)) rs, [], st)"

text \<open>The storage before the first step and after each step of a schedule.\<close>

fun stores :: "'s Storage \<Rightarrow> nat list \<Rightarrow> 's config \<Rightarrow> 's list" where
  "stores s [] c = [snd (snd c)]"
| "stores s (i # sched) c = snd (snd c) # stores s sched (sched_step s i c)"

text \<open>The calls of one request in a trace.\<close>

definition calls_of :: "nat \<Rightarrow> (nat \<times> call) list \<Rightarrow> call list" where
  "calls_of i tr = map snd (filter (\<lambda>(j, c). j = i) tr)"

text \<open>A request whose only header is \<^verbatim>\<open>Idempotency-Key: key\<close>, as the test builds it.\<close>

definition request_with :: "string \<Rightarrow> Request" where
  "request_with key = \<lparr>Header = [''Idempotency-Key'' \<mapsto> [key]]\<rparr>"

definition request_without :: Request where
  "request_without = \<lparr>Header = Map.empty\<rparr>"

section \<open>The Redis storage\<close>

text \<open>
  The Redis client (\<^verbatim>\<open>github.com/go-redis/redis/v8\<close>) and the server behind it are
  not part of the repository. The model keeps what the three commands the source
  issues do, as Redis documents them: the database maps a key to a value and its
  remaining time to live (\<open>None\<close>: the key does not expire); a command fails with the
  client's error when the server cannot be reached or the context is cancelled
  (\<open>unreachable = Some msg\<close>), and then leaves the database alone. The passing of
  time is \<open>elapse\<close>: it shortens every time to live and removes the keys whose
  time is up. \<^verbatim>\<open>time.Duration\<close> is a count of nanoseconds; the rounding of an
  expiry to the milliseconds or seconds of the wire format is not modelled.
\<close>

type_synonym Duration = int

definition KeepTTL :: Duration where
  "KeepTTL = - 1"

record redis_entry =
  val :: string
  ttl :: "Duration option"

record redis_Client =
  db :: "string \<rightharpoonup> redis_entry"
  unreachable :: "string option"

text \<open>
  \<^verbatim>\<open>SetNX(ctx, key, value, expiration).Result()\<close>: \<^verbatim>\<open>SETNX key value\<close> for expiration
  0, \<^verbatim>\<open>SET key value KEEPTTL NX\<close> for \<^verbatim>\<open>KeepTTL\<close>, \<^verbatim>\<open>SET key value PX|EX n NX\<close>
  otherwise, which the server rejects when the expiry is not positive. The result is
  true when the key was set and false when it exists already.
\<close>

definition client_SetNX ::
    "redis_Client \<Rightarrow> string \<Rightarrow> string \<Rightarrow> Duration \<Rightarrow> (bool \<times> error option) \<times> redis_Client" where
  "client_SetNX c key value expiration =
    (case unreachable c of
       Some msg \<Rightarrow> ((False, Some (redis_failure msg)), c)
     | None \<Rightarrow>
         if expiration < 0 \<and> expiration \<noteq> KeepTTL then
           ((False, Some (redis_failure ''ERR invalid expire time in set'')), c)
         else
           (case db c key of
              Some e \<Rightarrow> ((False, None), c)
            | None \<Rightarrow>
                ((True, None),
                 c\<lparr>db := (db c)(key \<mapsto>
                    \<lparr>val = value, ttl = (if 0 < expiration then Some expiration else None)\<rparr>)\<rparr>)))"

text \<open>\<^verbatim>\<open>Get(ctx, key).Result()\<close>: the value, or the error \<^verbatim>\<open>redis.Nil\<close> when the key is absent.\<close>

definition client_Get :: "redis_Client \<Rightarrow> string \<Rightarrow> string \<times> error option" where
  "client_Get c key =
    (case unreachable c of
       Some msg \<Rightarrow> ([], Some (redis_failure msg))
     | None \<Rightarrow>
         (case db c key of
            None \<Rightarrow> ([], Some redis_Nil)
          | Some e \<Rightarrow> (val e, None)))"

text \<open>
  \<^verbatim>\<open>Set(ctx, key, value, expiration).Result()\<close>: \<^verbatim>\<open>SET key value PX|EX n\<close> for a
  positive expiration, \<^verbatim>\<open>SET key value KEEPTTL\<close> for \<^verbatim>\<open>KeepTTL\<close>, which keeps the
  time to live the key has, and \<^verbatim>\<open>SET key value\<close> otherwise, which discards it.
\<close>

definition client_Set ::
    "redis_Client \<Rightarrow> string \<Rightarrow> string \<Rightarrow> Duration \<Rightarrow> (string \<times> error option) \<times> redis_Client" where
  "client_Set c key value expiration =
    (case unreachable c of
       Some msg \<Rightarrow> (([], Some (redis_failure msg)), c)
     | None \<Rightarrow>
         ((''OK'', None),
          c\<lparr>db := (db c)(key \<mapsto>
             \<lparr>val = value,
              ttl = (if 0 < expiration then Some expiration
                     else if expiration = KeepTTL then
                       (case db c key of None \<Rightarrow> None | Some e \<Rightarrow> ttl e)
                     else None)\<rparr>)\<rparr>))"

definition elapse :: "Duration \<Rightarrow> redis_Client \<Rightarrow> redis_Client" where
  "elapse d c =
    c\<lparr>db := (\<lambda>key.
        case db c key of
          None \<Rightarrow> None
        | Some e \<Rightarrow>
            (case ttl e of
               None \<Rightarrow> Some e
             | Some t \<Rightarrow> if t \<le> d then None else Some (e\<lparr>ttl := Some (t - d)\<rparr>)))\<rparr>"

text \<open>\<^verbatim>\<open>type redisStorage struct\<close> and its constructor (storage.go).\<close>

record redisStorage =
  client :: redis_Client
  expiry :: Duration
  keyPrefix :: string

definition WithKeyPrefix :: "string \<Rightarrow> redisStorage \<Rightarrow> redisStorage" where
  "WithKeyPrefix prefix rs = rs\<lparr>keyPrefix := prefix\<rparr>"

fun apply_opts :: "(redisStorage \<Rightarrow> redisStorage) option list \<Rightarrow> redisStorage \<Rightarrow> redisStorage" where
  "apply_opts [] s = s"
| "apply_opts (None # opts) s = apply_opts opts s"
| "apply_opts (Some opt # opts) s = apply_opts opts (opt s)"

definition NewRedisStorage ::
    "redis_Client \<Rightarrow> Duration \<Rightarrow> (redisStorage \<Rightarrow> redisStorage) option list \<Rightarrow> redisStorage" where
  "NewRedisStorage c e opts = apply_opts opts \<lparr>client = c, expiry = e, keyPrefix = ''idemp:''\<rparr>"

definition redisStorage_Add :: "redisStorage \<Rightarrow> string \<Rightarrow> error option \<times> redisStorage" where
  "redisStorage_Add s key =
    (case client_SetNX (client s) (keyPrefix s @ key) ''in-process'' (expiry s) of
       ((res, Some err), c) \<Rightarrow>
         (Some (Errorf ''failed to set the key %q in redis: %w'' (Some key) (Some err)), s\<lparr>client := c\<rparr>)
     | ((res, None), c) \<Rightarrow>
         if \<not> res then
           (Some (Errorf ''the key %q already exists in redis'' (Some key) None), s\<lparr>client := c\<rparr>)
         else (None, s\<lparr>client := c\<rparr>))"

definition redisStorage_Get :: "redisStorage \<Rightarrow> string \<Rightarrow> RequestStatus option \<times> error option" where
  "redisStorage_Get s key =
    (case client_Get (client s) (keyPrefix s @ key) of
       (res, Some err) \<Rightarrow>
         if errors_Is err redis_Nil then (None, None)
         else (None, Some (Errorf ''failed to get the key %q from redis: %w'' (Some key) (Some err)))
     | (res, None) \<Rightarrow> (Some \<lparr>InProcess = (res = ''in-process'')\<rparr>, None))"

definition redisStorage_Complete :: "redisStorage \<Rightarrow> string \<Rightarrow> error option \<times> redisStorage" where
  "redisStorage_Complete s key =
    (case client_Set (client s) (keyPrefix s @ key) ''done'' KeepTTL of
       ((res, Some err), c) \<Rightarrow>
         (Some (Errorf ''failed to update the key %q in redis: %w'' (Some key) (Some err)), s\<lparr>client := c\<rparr>)
     | ((res, None), c) \<Rightarrow> (None, s\<lparr>client := c\<rparr>))"

definition redis :: "redisStorage Storage" where
  "redis = \<lparr>Add = redisStorage_Add, Get = redisStorage_Get, Complete = redisStorage_Complete\<rparr>"

text \<open>Example stores and the observations the properties below make of a trace.\<close>

fun is_500 :: "call \<Rightarrow> bool" where
  "is_500 (errResponder err code) = (code = StatusInternalServerError)"
| "is_500 c = False"

definition example_redis :: redisStorage where
  "example_redis =
     NewRedisStorage
       \<lparr>db = [''idemp:deadbeef'' \<mapsto> \<lparr>val = ''in-process'', ttl = Some 5000000000\<rparr>],
        unreachable = None\<rparr>
       86400000000000 []"

definition empty_redis :: redisStorage where
  "empty_redis = NewRedisStorage \<lparr>db = Map.empty, unreachable = None\<rparr> 86400000000000 []"

definition down_redis :: redisStorage where
  "down_redis =
     NewRedisStorage \<lparr>db = Map.empty, unreachable = Some ''dial tcp: connection refused''\<rparr>
       86400000000000 []"

section \<open>Properties\<close>

subsection \<open>Helper lemmas\<close>

lemma Header_Get_request_with: "Header_Get (Header (request_with key)) ''Idempotency-Key'' = key"
  by (simp add: request_with_def Header_Get_def)

text \<open>\<^verbatim>\<open>Verify\<close> is the four steps of the concurrent model run without interruption.\<close>

lemma Verify_run_alone: "Verify s next r st = run_alone s next r st"
  by (auto simp: Verify_def run_alone_def Let_def split: prod.splits option.splits handler_end.splits)

lemma Verify_memory_absent:
  assumes "Header_Get (Header r) ''Idempotency-Key'' = key" and "key \<noteq> []" and "m key = None"
  shows "Verify memory Returns r m =
     ([Storage_Get key, Storage_Add key, next_ServeHTTP r, Storage_Complete key],
      m(key \<mapsto> \<lparr>InProcess = False\<rparr>))"
  using assms
  by (simp add: Verify_def memory_def memoryStorage_Get_def memoryStorage_Add_def
      memoryStorage_Complete_def)

lemma Verify_memory_completed:
  assumes "Header_Get (Header r) ''Idempotency-Key'' = key" and "key \<noteq> []"
    and "m key = Some \<lparr>InProcess = False\<rparr>"
  shows "Verify memory next r m = ([Storage_Get key, restorer key], m)"
  using assms
  by (simp add: Verify_def memory_def memoryStorage_Get_def)

lemma serve_memory_completed:
  assumes "key \<noteq> []" and "Header_Get (Header r) ''Idempotency-Key'' = key"
    and "m key = Some \<lparr>InProcess = False\<rparr>"
  shows "serve memory (map (\<lambda>next. (next, r)) nexts) m
           = (replicate (length nexts) [Storage_Get key, restorer key], m)"
  using assms by (induction nexts) (simp_all add: Verify_memory_completed)

text \<open>
  What holds of the memory storage when no two requests overlap and the handler of
  the first returns: requests with one key, served one after the other from a store
  where the key is absent, run the handler once, for the first, and the restorer for
  each of the others.
\<close>

lemma serve_memory_same_key:
  assumes "key \<noteq> []" and "Header_Get (Header r) ''Idempotency-Key'' = key" and "m key = None"
  shows "serve memory ((Returns, r) # map (\<lambda>next. (next, r)) nexts) m =
           ([Storage_Get key, Storage_Add key, next_ServeHTTP r, Storage_Complete key]
              # replicate (length nexts) [Storage_Get key, restorer key],
            m(key \<mapsto> \<lparr>InProcess = False\<rparr>))"
proof -
  let ?m1 = "m(key \<mapsto> \<lparr>InProcess = False\<rparr>)"
  from assms have "Verify memory Returns r m =
      ([Storage_Get key, Storage_Add key, next_ServeHTTP r, Storage_Complete key], ?m1)"
    by (simp add: Verify_memory_absent)
  moreover from assms have "serve memory (map (\<lambda>next. (next, r)) nexts) ?m1
      = (replicate (length nexts) [Storage_Get key, restorer key], ?m1)"
    by (simp add: serve_memory_completed)
  ultimately show ?thesis by simp
qed

text \<open>
  A handler that panics leaves the key in process, and the next request with the key
  is answered 409.
\<close>

lemma serve_memory_handler_panics:
  assumes "key \<noteq> []" and "Header_Get (Header r) ''Idempotency-Key'' = key" and "m key = None"
  shows "serve memory [(Panics, r), (next, r)] m =
           ([[Storage_Get key, Storage_Add key, next_ServeHTTP r],
             [Storage_Get key, errResponder (Errorf ''request already in progress'' None None) 409]],
            m(key \<mapsto> \<lparr>InProcess = True\<rparr>))"
  using assms
  by (simp add: Verify_def memory_def memoryStorage_Get_def memoryStorage_Add_def StatusConflict_def)

lemma step_memory_no_500: "filter is_500 (fst (snd (step memory next r p m))) = []"
  by (cases p)
    (simp_all add: memory_def memoryStorage_Get_def memoryStorage_Add_def memoryStorage_Complete_def
      Let_def StatusBadRequest_def StatusConflict_def StatusInternalServerError_def
      split: option.splits handler_end.splits)

lemma sched_step_memory_no_500:
  "filter is_500 (map snd (fst (snd (sched_step memory i (ts, tr, m))))) = filter is_500 (map snd tr)"
proof (cases "i < length ts")
  case False
  then show ?thesis by simp
next
  case True
  obtain h r p where t: "ts ! i = ((h, r), p)" by (cases "ts ! i") auto
  obtain p' cs m' where st: "step memory h r p m = (p', cs, m')"
    by (cases "step memory h r p m")
  from step_memory_no_500 [of h r p m] st have "filter is_500 cs = []" by simp
  with True t st show ?thesis by (simp add: comp_def)
qed

lemma exec_memory_no_500:
  "filter is_500 (map snd (fst (snd (exec memory sched c)))) = filter is_500 (map snd (fst (snd c)))"
proof (induction sched arbitrary: c)
  case Nil
  then show ?case by simp
next
  case (Cons i sched)
  obtain ts tr m where c: "c = (ts, tr, m)" by (cases c)
  have "filter is_500 (map snd (fst (snd (exec memory (i # sched) c))))
      = filter is_500 (map snd (fst (snd (sched_step memory i c))))"
    by (simp add: Cons.IH del: sched_step.simps)
  also have "\<dots> = filter is_500 (map snd (fst (snd c)))"
    unfolding c by (simp only: sched_step_memory_no_500 fst_conv snd_conv)
  finally show ?case .
qed

subsection \<open>The claims\<close>

text \<open>
  C1. The claim says that \<^verbatim>\<open>Add\<close> of the memory storage checks that the key is
  absent, so that a claim on a key that is present neither succeeds as a fresh one
  nor overwrites its status. The source assigns unconditionally under the lock. On a
  store where the key is completed, \<^verbatim>\<open>Add\<close> returns \<^verbatim>\<open>nil\<close>, as for a fresh key,
  and the key is in process again; on a store where the key is in process, \<^verbatim>\<open>Add\<close>
  returns \<^verbatim>\<open>nil\<close> as well.
\<close>

theorem memoryStorage_Add_overwrites:
  "memoryStorage_Add [''deadbeef'' \<mapsto> \<lparr>InProcess = False\<rparr>] ''deadbeef''
     = (None, [''deadbeef'' \<mapsto> \<lparr>InProcess = True\<rparr>]) \<and>
   memoryStorage_Add [''deadbeef'' \<mapsto> \<lparr>InProcess = True\<rparr>] ''deadbeef''
     = (None, [''deadbeef'' \<mapsto> \<lparr>InProcess = True\<rparr>]) \<and>
   memoryStorage_Add NewMemoryStorage ''deadbeef''
     = (None, [''deadbeef'' \<mapsto> \<lparr>InProcess = True\<rparr>])"
  by (simp add: memoryStorage_Add_def NewMemoryStorage_def)

text \<open>
  C2. A claim with the Redis storage on a key that exists already returns an outcome
  that its caller can tell from a backend failure. When the server is reached (with
  an expiry it accepts) and holds the key, \<^verbatim>\<open>Add\<close> returns the error
  \<^verbatim>\<open>the key %q already exists in redis\<close>, which wraps no error, and changes nothing.
  When the server is not reached, \<^verbatim>\<open>Add\<close> returns the error
  \<^verbatim>\<open>failed to set the key %q in redis: %w\<close>, which wraps the error of the client.
  For every state and key, \<^verbatim>\<open>Add\<close> returns an error that wraps nothing
  (\<^verbatim>\<open>errors.Unwrap\<close> gives \<^verbatim>\<open>nil\<close>) exactly when the key exists already on a server
  that is reached and accepts the expiry, and an error that wraps another exactly when
  the backend fails (the server is not reached, or rejects the expiry): no error value
  reports both.
\<close>

theorem redisStorage_Add_lost_race_distinct:
  "(unreachable (client s) = None \<and> (0 \<le> expiry s \<or> expiry s = KeepTTL) \<and>
    db (client s) (keyPrefix s @ key) = Some e \<longrightarrow>
      redisStorage_Add s key = (Some (Errorf ''the key %q already exists in redis'' (Some key) None), s) \<and>
      Unwrap (the (fst (redisStorage_Add s key))) = None) \<and>
   (unreachable (client s) = Some msg \<longrightarrow>
      redisStorage_Add s key =
        (Some (Errorf ''failed to set the key %q in redis: %w'' (Some key) (Some (redis_failure msg))), s) \<and>
      Unwrap (the (fst (redisStorage_Add s key))) = Some (redis_failure msg)) \<and>
   ((\<exists>err. fst (redisStorage_Add s key) = Some err \<and> Unwrap err = None) =
      (unreachable (client s) = None \<and> (0 \<le> expiry s \<or> expiry s = KeepTTL) \<and>
       db (client s) (keyPrefix s @ key) \<noteq> None)) \<and>
   ((\<exists>err. fst (redisStorage_Add s key) = Some err \<and> Unwrap err \<noteq> None) =
      (unreachable (client s) \<noteq> None \<or> (expiry s < 0 \<and> expiry s \<noteq> KeepTTL)))"
  by (auto simp: redisStorage_Add_def client_SetNX_def KeepTTL_def split: option.splits)

theorem redisStorage_Add_lost_race_distinct_witness:
  "(unreachable (client example_redis) = None \<and>
    (0 \<le> expiry example_redis \<or> expiry example_redis = KeepTTL) \<and>
    db (client example_redis) (keyPrefix example_redis @ ''deadbeef'')
      = Some \<lparr>val = ''in-process'', ttl = Some 5000000000\<rparr>) \<and>
   redisStorage_Add example_redis ''deadbeef''
     = (Some (Errorf ''the key %q already exists in redis'' (Some ''deadbeef'') None), example_redis) \<and>
   Unwrap (the (fst (redisStorage_Add example_redis ''deadbeef''))) = None \<and>
   unreachable (client down_redis) = Some ''dial tcp: connection refused'' \<and>
   redisStorage_Add down_redis ''deadbeef''
     = (Some (Errorf ''failed to set the key %q in redis: %w'' (Some ''deadbeef'')
          (Some (redis_failure ''dial tcp: connection refused''))), down_redis) \<and>
   Unwrap (the (fst (redisStorage_Add down_redis ''deadbeef'')))
     = Some (redis_failure ''dial tcp: connection refused'')"
  using redisStorage_Add_lost_race_distinct [of example_redis "''deadbeef''"
      "\<lparr>val = ''in-process'', ttl = Some 5000000000\<rparr>"]
    redisStorage_Add_lost_race_distinct [of down_redis "''deadbeef''" _
      "''dial tcp: connection refused''"]
  by (simp add: example_redis_def down_redis_def NewRedisStorage_def)

text \<open>
  C3. The claim says that a request that finds the key absent and then loses the race
  for it is answered like one that found the key: 409 while the winner is in process.
  With the Redis storage, two requests with the same key, interleaved so that both
  \<^verbatim>\<open>Get\<close> before either \<^verbatim>\<open>Add\<close>: the first has claimed the key and has not completed;
  the second found the key absent, its \<^verbatim>\<open>Add\<close> reports that the key exists, and
  \<^verbatim>\<open>Verify\<close> answers it with 500.
\<close>

theorem lost_race_gets_500:
  "redisStorage_Get (snd (snd (exec redis [0, 1, 0, 1]
      (start [(Returns, request_with ''deadbeef''), (Returns, request_with ''deadbeef'')] empty_redis))))
      ''deadbeef''
     = (Some \<lparr>InProcess = True\<rparr>, None) \<and>
   calls_of 0 (fst (snd (exec redis [0, 1, 0, 1]
      (start [(Returns, request_with ''deadbeef''), (Returns, request_with ''deadbeef'')] empty_redis))))
     = [Storage_Get ''deadbeef'', Storage_Add ''deadbeef''] \<and>
   calls_of 1 (fst (snd (exec redis [0, 1, 0, 1]
      (start [(Returns, request_with ''deadbeef''), (Returns, request_with ''deadbeef'')] empty_redis))))
     = [Storage_Get ''deadbeef'', Storage_Add ''deadbeef'',
        errResponder (Errorf ''could not process request to save Idempotency-Key: %w'' None
          (Some (Errorf ''the key %q already exists in redis'' (Some ''deadbeef'') None))) 500]"
  by (simp add: redis_def redisStorage_Add_def redisStorage_Get_def client_SetNX_def client_Get_def
      KeepTTL_def NewRedisStorage_def empty_redis_def start_def calls_of_def Header_Get_request_with
      StatusInternalServerError_def Let_def)

text \<open>
  C4. The claim says that of several simultaneous claims of a fresh key exactly one
  succeeds, so that the wrapped handler runs at most once for the key. With the
  memory storage, two claims of the same fresh key both return \<^verbatim>\<open>nil\<close>; and two
  requests with the same key, interleaved step by step, both find the key absent,
  both claim it, and both run the wrapped handler.
\<close>

theorem memory_concurrent_claims_both_succeed:
  "fst (memoryStorage_Add NewMemoryStorage ''deadbeef'') = None \<and>
   fst (memoryStorage_Add (snd (memoryStorage_Add NewMemoryStorage ''deadbeef'')) ''deadbeef'') = None \<and>
   fst (snd (exec memory [0, 1, 0, 1, 0, 1, 0, 1]
      (start [(Returns, request_with ''deadbeef''), (Returns, request_with ''deadbeef'')] NewMemoryStorage)))
     = [(0, Storage_Get ''deadbeef''), (1, Storage_Get ''deadbeef''),
        (0, Storage_Add ''deadbeef''), (1, Storage_Add ''deadbeef''),
        (0, next_ServeHTTP (request_with ''deadbeef'')), (1, next_ServeHTTP (request_with ''deadbeef'')),
        (0, Storage_Complete ''deadbeef''), (1, Storage_Complete ''deadbeef'')]"
  by (simp add: memory_def memoryStorage_Add_def memoryStorage_Get_def memoryStorage_Complete_def
      NewMemoryStorage_def start_def Header_Get_request_with Let_def)

text \<open>
  C5. The claim says that requests with one key run the wrapped handler once and the
  restorer for every other request, and that once \<^verbatim>\<open>Complete\<close> has succeeded for a
  key every later request with the key goes to the restorer and never to the handler.
  With the memory storage, three requests with the same key whose handlers return:
  requests 0 and 1 both find the key absent; request 0 claims the key, runs the
  handler and completes the key; then the claim of request 1 puts the key back in
  process. Request 2 arrives after \<^verbatim>\<open>Complete\<close> has returned \<^verbatim>\<open>nil\<close> for request 0:
  it is answered 409, not by the restorer, and the handler runs a second time, for
  request 1.
\<close>

theorem memory_request_after_Complete_gets_409:
  "fst (snd (exec memory [0, 1, 0, 0, 0, 1, 2, 1, 1]
      (start [(Returns, request_with ''deadbeef''), (Returns, request_with ''deadbeef''),
              (Returns, request_with ''deadbeef'')] NewMemoryStorage)))
     = [(0, Storage_Get ''deadbeef''), (1, Storage_Get ''deadbeef''),
        (0, Storage_Add ''deadbeef''), (0, next_ServeHTTP (request_with ''deadbeef'')),
        (0, Storage_Complete ''deadbeef''),
        (1, Storage_Add ''deadbeef''),
        (2, Storage_Get ''deadbeef''),
        (2, errResponder (Errorf ''request already in progress'' None None) 409),
        (1, next_ServeHTTP (request_with ''deadbeef'')), (1, Storage_Complete ''deadbeef'')]"
  by (simp add: memory_def memoryStorage_Add_def memoryStorage_Get_def memoryStorage_Complete_def
      NewMemoryStorage_def start_def Header_Get_request_with Let_def StatusConflict_def)

text \<open>
  C6. Whatever the storage and however the wrapped handler would end: when \<^verbatim>\<open>Get\<close>
  finds the key with a status that is in process, \<^verbatim>\<open>Verify\<close> calls the error
  responder with 409 and makes no other call but that \<^verbatim>\<open>Get\<close>, so the wrapped
  handler does not run and the storage is left as it was. In particular, with the
  storage whose \<^verbatim>\<open>Complete\<close> does nothing, the second of two requests with the same
  key gets 409, whether the handler of the first returned or panicked.
\<close>

theorem in_process_conflict:
  "(key \<noteq> [] \<and> Header_Get (Header r) ''Idempotency-Key'' = key \<and>
    Get s st key = (Some status, None) \<and> InProcess status \<longrightarrow>
      Verify s next r st =
        ([Storage_Get key, errResponder (Errorf ''request already in progress'' None None) 409], st)) \<and>
   (key \<noteq> [] \<and> m key = None \<longrightarrow>
      serve incomplete [(next1, request_with key), (next2, request_with key)] m =
        ([[Storage_Get key, Storage_Add key, next_ServeHTTP (request_with key)]
            @ (case next1 of Returns \<Rightarrow> [Storage_Complete key] | Panics \<Rightarrow> []),
          [Storage_Get key, errResponder (Errorf ''request already in progress'' None None) 409]],
         m(key \<mapsto> \<lparr>InProcess = True\<rparr>)))"
  by (simp add: Verify_def StatusConflict_def Header_Get_request_with incomplete_def
      memoryStorage_Get_def memoryStorage_Add_def incompleteStorage_Complete_def
      split: handler_end.splits)

theorem in_process_conflict_witness:
  "(''deadbeef'' \<noteq> [] \<and> Header_Get (Header (request_with ''deadbeef'')) ''Idempotency-Key'' = ''deadbeef'' \<and>
    Get memory [''deadbeef'' \<mapsto> \<lparr>InProcess = True\<rparr>] ''deadbeef'' = (Some \<lparr>InProcess = True\<rparr>, None) \<and>
    InProcess \<lparr>InProcess = True\<rparr>) \<and>
   Verify memory Returns (request_with ''deadbeef'') [''deadbeef'' \<mapsto> \<lparr>InProcess = True\<rparr>] =
     ([Storage_Get ''deadbeef'', errResponder (Errorf ''request already in progress'' None None) 409],
      [''deadbeef'' \<mapsto> \<lparr>InProcess = True\<rparr>]) \<and>
   NewMemoryStorage ''deadbeef'' = None \<and>
   serve incomplete [(Returns, request_with ''deadbeef''), (Returns, request_with ''deadbeef'')]
       NewMemoryStorage =
     ([[Storage_Get ''deadbeef'', Storage_Add ''deadbeef'', next_ServeHTTP (request_with ''deadbeef''),
        Storage_Complete ''deadbeef''],
       [Storage_Get ''deadbeef'', errResponder (Errorf ''request already in progress'' None None) 409]],
      [''deadbeef'' \<mapsto> \<lparr>InProcess = True\<rparr>])"
  using in_process_conflict [of "''deadbeef''" "request_with ''deadbeef''" memory
      "[''deadbeef'' \<mapsto> \<lparr>InProcess = True\<rparr>]" "\<lparr>InProcess = True\<rparr>" Returns NewMemoryStorage
      Returns Returns]
  by (simp add: Header_Get_request_with memory_def memoryStorage_Get_def NewMemoryStorage_def)

text \<open>
  C7. A request whose \<^verbatim>\<open>Idempotency-Key\<close> header is missing or empty: whatever the
  storage and its state, \<^verbatim>\<open>Verify\<close> makes one call, to the error responder, with the
  error \<^verbatim>\<open>no Idempotency-Key set\<close> and the status 400. It calls neither the storage
  nor the wrapped handler, and the storage is left as it was.
\<close>

theorem Verify_without_key:
  "Header_Get (Header r) ''Idempotency-Key'' = [] \<Longrightarrow>
   Verify s next r st = ([errResponder (Errorf ''no Idempotency-Key set'' None None) 400], st)"
  by (simp add: Verify_def StatusBadRequest_def)

theorem Verify_without_key_witness:
  "Header_Get (Header request_without) ''Idempotency-Key'' = [] \<and>
   Verify memory Returns request_without [''deadbeef'' \<mapsto> \<lparr>InProcess = True\<rparr>]
     = ([errResponder (Errorf ''no Idempotency-Key set'' None None) 400],
        [''deadbeef'' \<mapsto> \<lparr>InProcess = True\<rparr>])"
  using Verify_without_key [of request_without memory Returns
      "[''deadbeef'' \<mapsto> \<lparr>InProcess = True\<rparr>]"]
  by (simp add: request_without_def Header_Get_def)

text \<open>
  C8. The claim says that under every sequence of operations that the coordinator
  drives, the status of a key moves from absent to in process to completed and never
  back. With the memory storage, two requests with the same key: both find the key
  absent, the first claims it, runs the handler and completes it, and then the claim
  of the second puts the completed key back in process. The list is the status of the
  key before the first step and after each step.
\<close>

theorem memory_completed_back_to_in_process:
  "map (\<lambda>m. m ''deadbeef'') (stores memory [0, 1, 0, 0, 0, 1]
      (start [(Returns, request_with ''deadbeef''), (Returns, request_with ''deadbeef'')] NewMemoryStorage))
     = [None, None, None, Some \<lparr>InProcess = True\<rparr>, Some \<lparr>InProcess = True\<rparr>,
        Some \<lparr>InProcess = False\<rparr>, Some \<lparr>InProcess = True\<rparr>]"
  by (simp add: memory_def memoryStorage_Add_def memoryStorage_Get_def memoryStorage_Complete_def
      NewMemoryStorage_def start_def Header_Get_request_with Let_def)

text \<open>
  C9. \<^verbatim>\<open>Complete\<close> of the Redis storage, when the server is reached and holds the
  key with an entry \<open>e\<close>: it returns \<^verbatim>\<open>nil\<close>, the entry's value becomes \<^verbatim>\<open>done\<close>, its
  time to live stays the one of \<open>e\<close>, nothing else changes, and \<^verbatim>\<open>Get\<close> then reports
  the key as completed. So the completed key expires when the key would have expired
  without \<^verbatim>\<open>Complete\<close>: after any lapse of time it is gone in the one case exactly
  when it is gone in the other.
\<close>

theorem redisStorage_Complete_keeps_ttl:
  "unreachable (client s) = None \<and> db (client s) (keyPrefix s @ key) = Some e \<longrightarrow>
     redisStorage_Complete s key =
       (None,
        s\<lparr>client := (client s)\<lparr>db := (db (client s))(keyPrefix s @ key \<mapsto> \<lparr>val = ''done'', ttl = ttl e\<rparr>)\<rparr>\<rparr>) \<and>
     ttl (the (db (client (snd (redisStorage_Complete s key))) (keyPrefix s @ key))) = ttl e \<and>
     redisStorage_Get (snd (redisStorage_Complete s key)) key = (Some \<lparr>InProcess = False\<rparr>, None) \<and>
     (db (elapse d (client (snd (redisStorage_Complete s key)))) (keyPrefix s @ key) = None)
       = (db (elapse d (client s)) (keyPrefix s @ key) = None)"
  by (simp add: redisStorage_Complete_def client_Set_def KeepTTL_def redisStorage_Get_def client_Get_def
      elapse_def split: option.splits)

theorem redisStorage_Complete_keeps_ttl_witness:
  "unreachable (client example_redis) = None \<and>
   db (client example_redis) (keyPrefix example_redis @ ''deadbeef'')
     = Some \<lparr>val = ''in-process'', ttl = Some 5000000000\<rparr> \<and>
   redisStorage_Get example_redis ''deadbeef'' = (Some \<lparr>InProcess = True\<rparr>, None) \<and>
   db (client (snd (redisStorage_Complete example_redis ''deadbeef''))) ''idemp:deadbeef''
     = Some \<lparr>val = ''done'', ttl = Some 5000000000\<rparr> \<and>
   redisStorage_Get (snd (redisStorage_Complete example_redis ''deadbeef'')) ''deadbeef''
     = (Some \<lparr>InProcess = False\<rparr>, None)"
  using redisStorage_Complete_keeps_ttl [of example_redis "''deadbeef''"
      "\<lparr>val = ''in-process'', ttl = Some 5000000000\<rparr>"]
  by (simp add: example_redis_def NewRedisStorage_def redisStorage_Get_def client_Get_def)

text \<open>
  C10. The three methods of the memory storage return \<^verbatim>\<open>nil\<close> as their error for
  every key and every state. Hence, with the memory storage, no call of \<^verbatim>\<open>Verify\<close>
  to the error responder carries the status 500, neither for a request served alone
  nor in any interleaving of any requests, however their handlers end: the two
  branches that answer 500 and the report of a failed completion are not reached.
\<close>

theorem memory_never_fails:
  "fst (memoryStorage_Add m key) = None \<and>
   snd (memoryStorage_Get m key) = None \<and>
   fst (memoryStorage_Complete m key) = None \<and>
   filter is_500 (fst (Verify memory next r m)) = [] \<and>
   filter is_500 (map snd (fst (snd (exec memory sched (start rs m))))) = []"
proof -
  have "filter is_500 (fst (Verify memory next r m)) = []"
    by (simp add: Verify_def memory_def memoryStorage_Get_def memoryStorage_Add_def memoryStorage_Complete_def
      Let_def StatusBadRequest_def StatusConflict_def StatusInternalServerError_def
      split: option.splits handler_end.splits)
  moreover have "filter is_500 (map snd (fst (snd (exec memory sched (start rs m))))) = []"
    by (simp add: exec_memory_no_500 start_def)
  ultimately show ?thesis
    by (simp add: memoryStorage_Add_def memoryStorage_Get_def memoryStorage_Complete_def)
qed

end
